theory Spec2Isabelle
  imports Complex_Main
begin

section \<open>JavaScript numbers\<close>

text \<open>
  The sketch computes with JavaScript numbers. A finite number is modelled by the real it
  denotes; the two infinities and NaN are separate values, with the arithmetic the language
  gives them (\<open>Infinity - Infinity\<close> is NaN, \<open>Math.min\<close> of anything and NaN is NaN,
  a non-zero finite number divided by zero is an infinity). Rounding, overflow of finite
  results and the sign of zero are not modelled: a finite result is the exact real, and
  zero counts as positive zero when it is a divisor.
\<close>

datatype jsnum = Num real | PosInf | NegInf | NaN

fun js_neg :: "jsnum \<Rightarrow> jsnum" where
  "js_neg (Num a) = Num (- a)"
| "js_neg PosInf = NegInf"
| "js_neg NegInf = PosInf"
| "js_neg NaN = NaN"

fun js_add :: "jsnum \<Rightarrow> jsnum \<Rightarrow> jsnum" where
  "js_add (Num a) (Num b) = Num (a + b)"
| "js_add NaN _ = NaN"
| "js_add _ NaN = NaN"
| "js_add PosInf NegInf = NaN"
| "js_add NegInf PosInf = NaN"
| "js_add PosInf _ = PosInf"
| "js_add _ PosInf = PosInf"
| "js_add NegInf _ = NegInf"
| "js_add _ NegInf = NegInf"

definition js_sub :: "jsnum \<Rightarrow> jsnum \<Rightarrow> jsnum" where
  "js_sub a b = js_add a (js_neg b)"

fun js_mul :: "jsnum \<Rightarrow> jsnum \<Rightarrow> jsnum" where
  "js_mul (Num a) (Num b) = Num (a * b)"
| "js_mul NaN _ = NaN"
| "js_mul _ NaN = NaN"
| "js_mul PosInf (Num b) = (if b = 0 then NaN else if 0 < b then PosInf else NegInf)"
| "js_mul NegInf (Num b) = (if b = 0 then NaN else if 0 < b then NegInf else PosInf)"
| "js_mul (Num a) PosInf = (if a = 0 then NaN else if 0 < a then PosInf else NegInf)"
| "js_mul (Num a) NegInf = (if a = 0 then NaN else if 0 < a then NegInf else PosInf)"
| "js_mul PosInf PosInf = PosInf"
| "js_mul PosInf NegInf = NegInf"
| "js_mul NegInf PosInf = NegInf"
| "js_mul NegInf NegInf = PosInf"

fun js_div :: "jsnum \<Rightarrow> jsnum \<Rightarrow> jsnum" where
  "js_div (Num a) (Num b) =
     (if b \<noteq> 0 then Num (a / b)
      else if a = 0 then NaN else if 0 < a then PosInf else NegInf)"
| "js_div NaN _ = NaN"
| "js_div _ NaN = NaN"
| "js_div (Num a) PosInf = Num 0"
| "js_div (Num a) NegInf = Num 0"
| "js_div PosInf (Num b) = (if 0 \<le> b then PosInf else NegInf)"
| "js_div NegInf (Num b) = (if 0 \<le> b then NegInf else PosInf)"
| "js_div PosInf _ = NaN"
| "js_div NegInf _ = NaN"

text \<open>\<open>Math.min\<close> and \<open>Math.max\<close> of two arguments.\<close>

fun js_min :: "jsnum \<Rightarrow> jsnum \<Rightarrow> jsnum" where
  "js_min (Num a) (Num b) = Num (min a b)"
| "js_min NaN _ = NaN"
| "js_min _ NaN = NaN"
| "js_min NegInf _ = NegInf"
| "js_min _ NegInf = NegInf"
| "js_min PosInf b = b"
| "js_min a PosInf = a"

fun js_max :: "jsnum \<Rightarrow> jsnum \<Rightarrow> jsnum" where
  "js_max (Num a) (Num b) = Num (max a b)"
| "js_max NaN _ = NaN"
| "js_max _ NaN = NaN"
| "js_max PosInf _ = PosInf"
| "js_max _ PosInf = PosInf"
| "js_max NegInf b = b"
| "js_max a NegInf = a"

text \<open>\<open>Math.cos\<close> and \<open>Math.sin\<close>: NaN outside the finite numbers.\<close>

fun js_cos :: "jsnum \<Rightarrow> jsnum" where
  "js_cos (Num a) = Num (cos a)"
| "js_cos _ = NaN"

fun js_sin :: "jsnum \<Rightarrow> jsnum" where
  "js_sin (Num a) = Num (sin a)"
| "js_sin _ = NaN"

text \<open>The comparison \<open>a <= b\<close>: false as soon as one side is NaN.\<close>

fun js_le :: "jsnum \<Rightarrow> jsnum \<Rightarrow> bool" where
  "js_le (Num a) (Num b) = (a \<le> b)"
| "js_le NaN _ = False"
| "js_le _ NaN = False"
| "js_le NegInf _ = True"
| "js_le _ PosInf = True"
| "js_le PosInf (Num b) = False"
| "js_le PosInf NegInf = False"
| "js_le (Num a) NegInf = False"

fun is_nan :: "jsnum \<Rightarrow> bool" where
  "is_nan NaN = True"
| "is_nan _ = False"

section \<open>Data model\<close>

text \<open>
  The object literals of the sketch, with the field names of the source. Several of them
  share field names, so selectors are written qualified (\<open>rect.w\<close>, \<open>aabb.w\<close>).
\<close>

record point =
  x :: jsnum
  y :: jsnum

record rect =
  x :: jsnum
  y :: jsnum
  w :: jsnum
  h :: jsnum

record aabb =
  minX :: jsnum
  minY :: jsnum
  maxX :: jsnum
  maxY :: jsnum
  w :: jsnum
  h :: jsnum

record pads =
  left :: jsnum
  right :: jsnum
  top :: jsnum
  bottom :: jsnum

section \<open>Auto-fit helpers\<close>

definition offsetRect :: "rect \<Rightarrow> jsnum \<Rightarrow> jsnum \<Rightarrow> rect" where
  "offsetRect r dx dy =
     \<lparr>rect.x = js_add (rect.x r) dx, y = js_add (rect.y r) dy, w = rect.w r, h = rect.h r\<rparr>"

text \<open>The arrow function that \<open>plaqueCorners\<close> maps over its four points.\<close>

definition rotateAbout :: "jsnum \<Rightarrow> jsnum \<Rightarrow> jsnum \<Rightarrow> jsnum \<Rightarrow> point \<Rightarrow> point" where
  "rotateAbout cx cy c s p =
     (let dx = js_sub (point.x p) cx;
          dy = js_sub (point.y p) cy
      in \<lparr>point.x = js_sub (js_add cx (js_mul dx c)) (js_mul dy s),
          y = js_add (js_add cy (js_mul dx s)) (js_mul dy c)\<rparr>)"

definition plaqueCorners :: "rect \<Rightarrow> jsnum \<Rightarrow> jsnum \<Rightarrow> point list" where
  "plaqueCorners box ang skewK =
     (let skew = js_mul (rect.h box) skewK;
          pts = [\<lparr>point.x = js_add (rect.x box) skew, y = rect.y box\<rparr>,
                 \<lparr>point.x = js_add (js_add (rect.x box) (rect.w box)) skew, y = rect.y box\<rparr>,
                 \<lparr>point.x = js_sub (js_add (rect.x box) (rect.w box)) skew,
                  y = js_add (rect.y box) (rect.h box)\<rparr>,
                 \<lparr>point.x = js_sub (rect.x box) skew, y = js_add (rect.y box) (rect.h box)\<rparr>];
          cx = js_add (rect.x box) (js_div (rect.w box) (Num 2));
          cy = js_add (rect.y box) (js_div (rect.h box) (Num 2));
          c = js_cos ang;
          s = js_sin ang
      in map (rotateAbout cx cy c s) pts)"

text \<open>
  The \<open>for ... of\<close> loop of \<open>aabbFromPoints\<close>, on the four running bounds
  \<open>(minX, minY, maxX, maxY)\<close>.
\<close>

fun aabb_loop ::
  "point list \<Rightarrow> jsnum \<times> jsnum \<times> jsnum \<times> jsnum \<Rightarrow> jsnum \<times> jsnum \<times> jsnum \<times> jsnum" where
  "aabb_loop [] acc = acc"
| "aabb_loop (p # ps) (mnX, mnY, mxX, mxY) =
     aabb_loop ps (js_min mnX (point.x p), js_min mnY (point.y p),
                   js_max mxX (point.x p), js_max mxY (point.y p))"

definition aabbFromPoints :: "point list \<Rightarrow> aabb" where
  "aabbFromPoints points =
     (case aabb_loop points (PosInf, PosInf, NegInf, NegInf) of
        (mnX, mnY, mxX, mxY) \<Rightarrow>
          \<lparr>minX = mnX, minY = mnY, maxX = mxX, maxY = mxY,
           w = js_sub mxX mnX, h = js_sub mxY mnY\<rparr>)"

section \<open>The auto-fit stage of \<open>draw\<close>\<close>

text \<open>
  \<open>draw\<close> fixes its design constants as literals and then computes the fit of the
  design into the viewport \<open>(width, height)\<close>. The stage is modelled once for an arbitrary
  design (the record \<open>layout\<close>: the plaques, the shared angle and skew factor, the shadow
  offset and the motif pads) and once with the literals of the source; the lemma
  \<open>draw_fit_autoFit\<close> below says that the second is the first at the design of the source.
\<close>

record layout =
  plaques :: "rect list"
  slant :: jsnum
  skewK :: jsnum
  shadowOff :: point
  motifPad :: pads

text \<open>
  The three constants \<open>s\<close>, \<open>ox\<close>, \<open>oy\<close> that \<open>draw\<close> hands to
  \<open>translate(ox, oy); scale(s)\<close>.
\<close>

record fitTransform =
  scale :: jsnum
  offsetX :: jsnum
  offsetY :: jsnum

text \<open>The corners of every plaque, then the corners of every plaque moved by the shadow offset.\<close>

definition layoutPoints :: "layout \<Rightarrow> point list" where
  "layoutPoints L =
     concat (map (\<lambda>r. plaqueCorners r (slant L) (skewK L)) (plaques L)) @
     concat (map (\<lambda>r. plaqueCorners
                         (offsetRect r (point.x (shadowOff L)) (point.y (shadowOff L)))
                         (slant L) (skewK L)) (plaques L))"

text \<open>The six assignments to \<open>bb\<close> that follow the call of \<open>aabbFromPoints\<close>, in order.\<close>

definition inflate :: "pads \<Rightarrow> aabb \<Rightarrow> aabb" where
  "inflate mp bb0 =
     (let bb1 = bb0\<lparr>minX := js_sub (minX bb0) (left mp)\<rparr>;
          bb2 = bb1\<lparr>maxX := js_add (maxX bb1) (right mp)\<rparr>;
          bb3 = bb2\<lparr>minY := js_sub (minY bb2) (pads.top mp)\<rparr>;
          bb4 = bb3\<lparr>maxY := js_add (maxY bb3) (bottom mp)\<rparr>;
          bb5 = bb4\<lparr>aabb.w := js_sub (maxX bb4) (minX bb4)\<rparr>
      in bb5\<lparr>aabb.h := js_sub (maxY bb5) (minY bb5)\<rparr>)"

definition padPx :: jsnum where
  "padPx = Num 18"

definition fitTo :: "aabb \<Rightarrow> jsnum \<Rightarrow> jsnum \<Rightarrow> fitTransform" where
  "fitTo bb width height =
     (let s = js_min (js_div (js_sub width (js_mul (Num 2) padPx)) (aabb.w bb))
                     (js_div (js_sub height (js_mul (Num 2) padPx)) (aabb.h bb));
          ox = js_sub (js_div (js_sub width (js_mul (aabb.w bb) s)) (Num 2))
                      (js_mul (minX bb) s);
          oy = js_sub (js_div (js_sub height (js_mul (aabb.h bb) s)) (Num 2))
                      (js_mul (minY bb) s)
      in \<lparr>scale = s, offsetX = ox, offsetY = oy\<rparr>)"

definition inflatedBBox :: "layout \<Rightarrow> aabb" where
  "inflatedBBox L = inflate (motifPad L) (aabbFromPoints (layoutPoints L))"

definition autoFit :: "layout \<Rightarrow> jsnum \<Rightarrow> jsnum \<Rightarrow> fitTransform" where
  "autoFit L width height = fitTo (inflatedBBox L) width height"

subsection \<open>The literals of the source\<close>

definition draw_slant :: jsnum where
  "draw_slant = Num (- 0.14)"

definition draw_skewK :: jsnum where
  "draw_skewK = Num 0.45"

definition steep :: rect where
  "steep = \<lparr>rect.x = Num 120, y = Num 120, w = Num 900, h = Num 220\<rparr>"

definition fast :: rect where
  "fast = \<lparr>rect.x = Num 260, y = Num 330, w = Num 920, h = Num 220\<rparr>"

definition draw_shadowOff :: point where
  "draw_shadowOff = \<lparr>point.x = Num 16, y = Num 16\<rparr>"

definition draw_motifPad :: pads where
  "draw_motifPad = \<lparr>left = Num 220, right = Num 120, top = Num 170, bottom = Num 140\<rparr>"

definition draw_pts :: "point list" where
  "draw_pts =
     plaqueCorners steep draw_slant draw_skewK @
     plaqueCorners fast draw_slant draw_skewK @
     plaqueCorners (offsetRect steep (point.x draw_shadowOff) (point.y draw_shadowOff))
       draw_slant draw_skewK @
     plaqueCorners (offsetRect fast (point.x draw_shadowOff) (point.y draw_shadowOff))
       draw_slant draw_skewK"

definition draw_bb :: aabb where
  "draw_bb = inflate draw_motifPad (aabbFromPoints draw_pts)"

definition draw_fit :: "jsnum \<Rightarrow> jsnum \<Rightarrow> fitTransform" where
  "draw_fit width height = fitTo draw_bb width height"

definition draw_layout :: layout where
  "draw_layout =
     \<lparr>plaques = [steep, fast], slant = draw_slant, skewK = draw_skewK,
      shadowOff = draw_shadowOff, motifPad = draw_motifPad\<rparr>"

subsection \<open>The effect of the transform\<close>

text \<open>
  After \<open>translate(ox, oy); scale(s)\<close> the drawing library sends the design point
  \<open>p\<close> to the viewport point \<open>(p.x * s + ox, p.y * s + oy)\<close>.
\<close>

definition applyFit :: "fitTransform \<Rightarrow> point \<Rightarrow> point" where
  "applyFit ft p =
     \<lparr>point.x = js_add (js_mul (point.x p) (scale ft)) (offsetX ft),
      y = js_add (js_mul (point.y p) (scale ft)) (offsetY ft)\<rparr>"


section \<open>Vocabulary of the specification\<close>

text \<open>
  The specification assumes every numeric input finite. \<open>finRect\<close> and \<open>finPoint\<close>
  build a rectangle and a point from real numbers.
\<close>

definition finRect :: "real \<Rightarrow> real \<Rightarrow> real \<Rightarrow> real \<Rightarrow> rect" where
  "finRect x0 y0 w0 h0 = \<lparr>rect.x = Num x0, y = Num y0, w = Num w0, h = Num h0\<rparr>"

definition finPoint :: "real \<times> real \<Rightarrow> point" where
  "finPoint q = \<lparr>point.x = Num (fst q), y = Num (snd q)\<rparr>"

text \<open>
  The contract of \<open>plaqueCorners\<close> in the words of the specification: the rotation
  \<open>x' = cx + dx cos(ang) - dy sin(ang)\<close>, \<open>y' = cy + dx sin(ang) + dy cos(ang)\<close> about
  \<open>(cx, cy)\<close>, applied to the rectangle whose top edge is shifted by \<open>+skew\<close> and whose
  bottom edge is shifted by \<open>-skew\<close>, in the order top-left, top-right, bottom-right,
  bottom-left.
\<close>

definition specRotate :: "real \<Rightarrow> real \<Rightarrow> real \<Rightarrow> real \<times> real \<Rightarrow> real \<times> real" where
  "specRotate cx cy ang q =
     (let dx = fst q - cx; dy = snd q - cy
      in (cx + dx * cos ang - dy * sin ang, cy + dx * sin ang + dy * cos ang))"

definition specCorners ::
  "real \<Rightarrow> real \<Rightarrow> real \<Rightarrow> real \<Rightarrow> real \<Rightarrow> real \<Rightarrow> (real \<times> real) list" where
  "specCorners x0 y0 w0 h0 ang k =
     (let skew = h0 * k
      in map (specRotate (x0 + w0 / 2) (y0 + h0 / 2) ang)
           [(x0 + skew, y0), (x0 + w0 + skew, y0),
            (x0 + w0 - skew, y0 + h0), (x0 - skew, y0 + h0)])"



text \<open>
  The concrete scenario of the specification: the single plaque \<open>{x:0, y:0, w:900, h:220}\<close>,
  angle 0, skew factor 0.45, shadow offset \<open>{0, 0}\<close> and zero motif pads.
\<close>

definition scenario_plaque :: rect where
  "scenario_plaque = \<lparr>rect.x = Num 0, y = Num 0, w = Num 900, h = Num 220\<rparr>"

definition scenario_layout :: layout where
  "scenario_layout =
     \<lparr>plaques = [scenario_plaque], slant = Num 0, skewK = Num 0.45,
      shadowOff = \<lparr>point.x = Num 0, y = Num 0\<rparr>,
      motifPad = \<lparr>left = Num 0, right = Num 0, top = Num 0, bottom = Num 0\<rparr>\<rparr>"

section \<open>Arithmetic on finite numbers\<close>

lemma js_sub_Num [simp]: "js_sub (Num a) (Num b) = Num (a - b)"
  by (simp add: js_sub_def)

lemma js_sub_eq_NumD:
  "js_sub a b = Num c \<Longrightarrow> \<exists>a' b'. a = Num a' \<and> b = Num b' \<and> c = a' - b'"
  by (cases a; cases b) (auto simp: js_sub_def)

lemma js_min_props:
  "\<not> is_nan a \<Longrightarrow> \<not> is_nan b \<Longrightarrow>
     \<not> is_nan (js_min a b) \<and> js_le (js_min a b) a \<and> js_le (js_min a b) b \<and>
     (js_min a b = a \<or> js_min a b = b)"
  by (cases a; cases b) (auto simp: min_def)

lemma js_max_props:
  "\<not> is_nan a \<Longrightarrow> \<not> is_nan b \<Longrightarrow>
     \<not> is_nan (js_max a b) \<and> js_le a (js_max a b) \<and> js_le b (js_max a b) \<and>
     (js_max a b = a \<or> js_max a b = b)"
  by (cases a; cases b) (auto simp: max_def)

lemma js_le_trans: "js_le a b \<Longrightarrow> js_le b c \<Longrightarrow> js_le a c"
  by (cases a; cases b; cases c) auto

lemma js_le_refl: "\<not> is_nan a \<Longrightarrow> js_le a a"
  by (cases a) auto

lemma js_le_PosInf: "js_le PosInf v \<Longrightarrow> v = PosInf"
  by (cases v) auto

lemma js_le_NegInf: "js_le v NegInf \<Longrightarrow> v = NegInf"
  by (cases v) auto

lemma finPoint_sel [simp]:
  "point.x (finPoint q) = Num (fst q)" "point.y (finPoint q) = Num (snd q)"
  by (simp_all add: finPoint_def)

section \<open>Geometry primitives: \<open>plaqueCorners\<close>\<close>

lemma plaqueCorners_fin:
  "plaqueCorners (finRect x0 y0 w0 h0) (Num ang) (Num k) =
     map finPoint (specCorners x0 y0 w0 h0 ang k)"
  by (simp add: plaqueCorners_def finRect_def specCorners_def specRotate_def rotateAbout_def
      finPoint_def Let_def)

lemma plaqueCorners_nonempty: "plaqueCorners box ang k \<noteq> []"
  by (simp add: plaqueCorners_def Let_def)

lemma plaqueCorners_finite:
  "p \<in> set (plaqueCorners (finRect x0 y0 w0 h0) (Num ang) (Num k)) \<Longrightarrow>
     (\<exists>r. point.x p = Num r) \<and> (\<exists>r. point.y p = Num r)"
  unfolding plaqueCorners_fin by auto

text \<open>
  Claim C2. On a rectangle, an angle and a skew factor that are finite numbers,
  \<open>plaqueCorners\<close> returns exactly four points: the corners of the parallelogram whose
  top edge is the rectangle's shifted by \<open>+skew\<close> and whose bottom edge is shifted by
  \<open>-skew\<close> (\<open>skew = box.h * skewK\<close>), each rotated about the centre of the rectangle, in the
  order top-left, top-right, bottom-right, bottom-left. The positivity of \<open>w\<close> and
  \<open>h\<close> is not needed.
\<close>

theorem plaqueCorners_parallelogram:
  "plaqueCorners (finRect x0 y0 w0 h0) (Num ang) (Num k) =
     map finPoint (specCorners x0 y0 w0 h0 ang k) \<and>
   length (plaqueCorners (finRect x0 y0 w0 h0) (Num ang) (Num k)) = 4"
  by (simp add: plaqueCorners_def finRect_def specCorners_def specRotate_def rotateAbout_def
      finPoint_def Let_def)


lemma draw_pts_fin:
  "draw_pts =
     plaqueCorners (finRect 120 120 900 220) (Num (- 0.14)) (Num 0.45) @
     plaqueCorners (finRect 260 330 920 220) (Num (- 0.14)) (Num 0.45) @
     plaqueCorners (finRect 136 136 900 220) (Num (- 0.14)) (Num 0.45) @
     plaqueCorners (finRect 276 346 920 220) (Num (- 0.14)) (Num 0.45)"
  by (simp add: draw_pts_def steep_def fast_def finRect_def offsetRect_def draw_shadowOff_def
      draw_slant_def draw_skewK_def)



section \<open>Geometry primitives: \<open>aabbFromPoints\<close>\<close>

text \<open>
  Claim C7. On the empty list \<open>aabbFromPoints\<close> returns a record, the seeds of the
  fold untouched: \<open>minX = minY = Infinity\<close> and \<open>maxX = maxY = -Infinity\<close> (and then
  \<open>w = h = -Infinity\<close>). The function has no failing path.
\<close>

theorem aabbFromPoints_empty:
  "aabbFromPoints [] =
     \<lparr>minX = PosInf, minY = PosInf, maxX = NegInf, maxY = NegInf, w = NegInf, h = NegInf\<rparr>"
  by (simp add: aabbFromPoints_def js_sub_def)

lemma aabb_loop_foldl:
  "aabb_loop ps (a, b, c, d) =
     (foldl js_min a (map point.x ps), foldl js_min b (map point.y ps),
      foldl js_max c (map point.x ps), foldl js_max d (map point.y ps))"
  by (induction ps arbitrary: a b c d) simp_all

lemma aabbFromPoints_fields:
  "minX (aabbFromPoints ps) = foldl js_min PosInf (map point.x ps)"
  "minY (aabbFromPoints ps) = foldl js_min PosInf (map point.y ps)"
  "maxX (aabbFromPoints ps) = foldl js_max NegInf (map point.x ps)"
  "maxY (aabbFromPoints ps) = foldl js_max NegInf (map point.y ps)"
  "aabb.w (aabbFromPoints ps) = js_sub (maxX (aabbFromPoints ps)) (minX (aabbFromPoints ps))"
  "aabb.h (aabbFromPoints ps) = js_sub (maxY (aabbFromPoints ps)) (minY (aabbFromPoints ps))"
  by (simp_all add: aabbFromPoints_def aabb_loop_foldl)

text \<open>The running minimum: below the seed and every value seen, and one of them.\<close>

lemma foldl_js_min:
  "\<not> is_nan a \<Longrightarrow> \<forall>v \<in> set vs. \<not> is_nan v \<Longrightarrow>
     \<not> is_nan (foldl js_min a vs) \<and> js_le (foldl js_min a vs) a \<and>
     (\<forall>v \<in> set vs. js_le (foldl js_min a vs) v) \<and>
     (foldl js_min a vs = a \<or> foldl js_min a vs \<in> set vs)"
proof (induction vs arbitrary: a)
  case Nil
  then show ?case by (simp add: js_le_refl)
next
  case (Cons v vs)
  have m: "\<not> is_nan (js_min a v)" "js_le (js_min a v) a" "js_le (js_min a v) v"
    "js_min a v = a \<or> js_min a v = v"
    using js_min_props [of a v] Cons.prems by auto
  have ih: "\<not> is_nan (foldl js_min (js_min a v) vs)"
    "js_le (foldl js_min (js_min a v) vs) (js_min a v)"
    "\<forall>u \<in> set vs. js_le (foldl js_min (js_min a v) vs) u"
    "foldl js_min (js_min a v) vs = js_min a v \<or> foldl js_min (js_min a v) vs \<in> set vs"
    using Cons.IH [OF m(1)] Cons.prems(2) by auto
  show ?case
    using m ih by (auto intro: js_le_trans)
qed

lemma foldl_js_max:
  "\<not> is_nan a \<Longrightarrow> \<forall>v \<in> set vs. \<not> is_nan v \<Longrightarrow>
     \<not> is_nan (foldl js_max a vs) \<and> js_le a (foldl js_max a vs) \<and>
     (\<forall>v \<in> set vs. js_le v (foldl js_max a vs)) \<and>
     (foldl js_max a vs = a \<or> foldl js_max a vs \<in> set vs)"
proof (induction vs arbitrary: a)
  case Nil
  then show ?case by (simp add: js_le_refl)
next
  case (Cons v vs)
  have m: "\<not> is_nan (js_max a v)" "js_le a (js_max a v)" "js_le v (js_max a v)"
    "js_max a v = a \<or> js_max a v = v"
    using js_max_props [of a v] Cons.prems by auto
  have ih: "\<not> is_nan (foldl js_max (js_max a v) vs)"
    "js_le (js_max a v) (foldl js_max (js_max a v) vs)"
    "\<forall>u \<in> set vs. js_le u (foldl js_max (js_max a v) vs)"
    "foldl js_max (js_max a v) vs = js_max a v \<or> foldl js_max (js_max a v) vs \<in> set vs"
    using Cons.IH [OF m(1)] Cons.prems(2) by auto
  show ?case
    using m ih by (auto intro: js_le_trans)
qed

text \<open>From the seeds of \<open>aabbFromPoints\<close>, on a non-empty list, the bound is a value seen.\<close>

lemma foldl_js_min_seed:
  assumes "vs \<noteq> []" "\<forall>v \<in> set vs. \<not> is_nan v"
  shows "(\<forall>v \<in> set vs. js_le (foldl js_min PosInf vs) v) \<and> foldl js_min PosInf vs \<in> set vs"
proof -
  have p: "\<forall>v \<in> set vs. js_le (foldl js_min PosInf vs) v"
    "foldl js_min PosInf vs = PosInf \<or> foldl js_min PosInf vs \<in> set vs"
    using foldl_js_min [of PosInf vs] assms(2) by auto
  obtain v where v: "v \<in> set vs" using assms(1) by (cases vs) auto
  have "foldl js_min PosInf vs \<in> set vs"
  proof (cases "foldl js_min PosInf vs = PosInf")
    case True
    then have "v = PosInf" using p(1) v js_le_PosInf by auto
    then show ?thesis using True v by simp
  next
    case False
    then show ?thesis using p(2) by simp
  qed
  then show ?thesis using p(1) by simp
qed

lemma foldl_js_max_seed:
  assumes "vs \<noteq> []" "\<forall>v \<in> set vs. \<not> is_nan v"
  shows "(\<forall>v \<in> set vs. js_le v (foldl js_max NegInf vs)) \<and> foldl js_max NegInf vs \<in> set vs"
proof -
  have p: "\<forall>v \<in> set vs. js_le v (foldl js_max NegInf vs)"
    "foldl js_max NegInf vs = NegInf \<or> foldl js_max NegInf vs \<in> set vs"
    using foldl_js_max [of NegInf vs] assms(2) by auto
  obtain v where v: "v \<in> set vs" using assms(1) by (cases vs) auto
  have "foldl js_max NegInf vs \<in> set vs"
  proof (cases "foldl js_max NegInf vs = NegInf")
    case True
    then have "v = NegInf" using p(1) v js_le_NegInf by auto
    then show ?thesis using True v by simp
  next
    case False
    then show ?thesis using p(2) by simp
  qed
  then show ?thesis using p(1) by simp
qed

text \<open>
  Claim C6. On a non-empty list of points whose coordinates are numbers (none is NaN), the
  box returned by \<open>aabbFromPoints\<close> satisfies \<open>minX <= p.x <= maxX\<close> and
  \<open>minY <= p.y <= maxY\<close> for every point \<open>p\<close> of the list, and each of the four bounds
  is the coordinate of some point of the list.
\<close>

theorem aabbFromPoints_bounds:
  assumes "ps \<noteq> []"
    and "\<forall>p \<in> set ps. \<not> is_nan (point.x p) \<and> \<not> is_nan (point.y p)"
  shows "(\<forall>p \<in> set ps.
            js_le (minX (aabbFromPoints ps)) (point.x p) \<and>
            js_le (point.x p) (maxX (aabbFromPoints ps)) \<and>
            js_le (minY (aabbFromPoints ps)) (point.y p) \<and>
            js_le (point.y p) (maxY (aabbFromPoints ps))) \<and>
         (\<exists>p \<in> set ps. point.x p = minX (aabbFromPoints ps)) \<and>
         (\<exists>p \<in> set ps. point.x p = maxX (aabbFromPoints ps)) \<and>
         (\<exists>p \<in> set ps. point.y p = minY (aabbFromPoints ps)) \<and>
         (\<exists>p \<in> set ps. point.y p = maxY (aabbFromPoints ps))"
proof -
  have nx: "map point.x ps \<noteq> []" "\<forall>v \<in> set (map point.x ps). \<not> is_nan v"
    and ny: "map point.y ps \<noteq> []" "\<forall>v \<in> set (map point.y ps). \<not> is_nan v"
    using assms by auto
  note a = foldl_js_min_seed [OF nx] foldl_js_max_seed [OF nx]
    foldl_js_min_seed [OF ny] foldl_js_max_seed [OF ny]
  show ?thesis
    unfolding aabbFromPoints_fields(1-4) using a by auto
qed

theorem aabbFromPoints_bounds_witness:
  "js_le (minX (aabbFromPoints [finPoint (1, 5), finPoint (3, 2)])) (Num 3) \<and>
   js_le (Num 3) (maxX (aabbFromPoints [finPoint (1, 5), finPoint (3, 2)])) \<and>
   js_le (minY (aabbFromPoints [finPoint (1, 5), finPoint (3, 2)])) (Num 2) \<and>
   js_le (Num 2) (maxY (aabbFromPoints [finPoint (1, 5), finPoint (3, 2)])) \<and>
   minX (aabbFromPoints [finPoint (1, 5), finPoint (3, 2)]) = Num 1 \<and>
   maxY (aabbFromPoints [finPoint (1, 5), finPoint (3, 2)]) = Num 5"
proof -
  have n: "[finPoint (1, 5), finPoint (3, 2)] \<noteq> []" by simp
  have f: "\<forall>p \<in> set [finPoint (1, 5), finPoint (3, 2)].
             \<not> is_nan (point.x p) \<and> \<not> is_nan (point.y p)"
    by simp
  show ?thesis
    using aabbFromPoints_bounds [OF n f] by (simp add: aabbFromPoints_def)
qed

section \<open>The fit transform\<close>

lemma draw_fit_autoFit: "draw_fit width height = autoFit draw_layout width height"
  by (simp add: draw_fit_def autoFit_def draw_bb_def inflatedBBox_def draw_layout_def
      layoutPoints_def draw_pts_def)

lemma inflate_fields:
  "minX (inflate mp b) = js_sub (minX b) (left mp)"
  "maxX (inflate mp b) = js_add (maxX b) (right mp)"
  "minY (inflate mp b) = js_sub (minY b) (pads.top mp)"
  "maxY (inflate mp b) = js_add (maxY b) (bottom mp)"
  "aabb.w (inflate mp b) = js_sub (maxX (inflate mp b)) (minX (inflate mp b))"
  "aabb.h (inflate mp b) = js_sub (maxY (inflate mp b)) (minY (inflate mp b))"
  by (simp_all add: inflate_def Let_def)

text \<open>A box with finite width and height has four finite bounds.\<close>

lemma inflatedBBox_finite:
  assumes "aabb.w (inflatedBBox L) = Num bw" "aabb.h (inflatedBBox L) = Num bh"
  shows "\<exists>mx my. minX (inflatedBBox L) = Num mx \<and> maxX (inflatedBBox L) = Num (mx + bw) \<and>
                 minY (inflatedBBox L) = Num my \<and> maxY (inflatedBBox L) = Num (my + bh)"
proof -
  obtain a b where "maxX (inflatedBBox L) = Num a" "minX (inflatedBBox L) = Num b" "bw = a - b"
    using js_sub_eq_NumD [of "maxX (inflatedBBox L)" "minX (inflatedBBox L)" bw] assms(1)
    by (auto simp: inflatedBBox_def inflate_fields(5))
  moreover obtain c d where
    "maxY (inflatedBBox L) = Num c" "minY (inflatedBBox L) = Num d" "bh = c - d"
    using js_sub_eq_NumD [of "maxY (inflatedBBox L)" "minY (inflatedBBox L)" bh] assms(2)
    by (auto simp: inflatedBBox_def inflate_fields(6))
  ultimately show ?thesis by simp
qed

lemma fitTo_finite:
  assumes "aabb.w bb = Num bw" "aabb.h bb = Num bh" "minX bb = Num mx" "minY bb = Num my"
    and "bw \<noteq> 0" "bh \<noteq> 0"
  shows "fitTo bb (Num W) (Num H) =
     (let s = min ((W - 2 * 18) / bw) ((H - 2 * 18) / bh)
      in \<lparr>scale = Num s,
          offsetX = Num ((W - bw * s) / 2 - mx * s),
          offsetY = Num ((H - bh * s) / 2 - my * s)\<rparr>)"
  using assms by (simp add: fitTo_def padPx_def Let_def)

lemma scenario_corners:
  "plaqueCorners scenario_plaque (Num 0) (Num 0.45) =
     [\<lparr>point.x = Num 99, y = Num 0\<rparr>, \<lparr>point.x = Num 999, y = Num 0\<rparr>,
      \<lparr>point.x = Num 801, y = Num 220\<rparr>, \<lparr>point.x = Num (- 99), y = Num 220\<rparr>]"
  by (simp add: plaqueCorners_def scenario_plaque_def rotateAbout_def Let_def)

lemma scenario_aabb:
  "aabbFromPoints (plaqueCorners scenario_plaque (Num 0) (Num 0.45)) =
     \<lparr>minX = Num (- 99), minY = Num 0, maxX = Num 999, maxY = Num 220,
      w = Num 1098, h = Num 220\<rparr>"
  unfolding scenario_corners by (simp add: aabbFromPoints_def)

lemma scenario_points:
  "layoutPoints scenario_layout =
     plaqueCorners scenario_plaque (Num 0) (Num 0.45) @
     plaqueCorners scenario_plaque (Num 0) (Num 0.45)"
  by (simp add: layoutPoints_def scenario_layout_def offsetRect_def scenario_plaque_def)

lemma scenario_bbox:
  "inflatedBBox scenario_layout =
     \<lparr>minX = Num (- 99), minY = Num 0, maxX = Num 999, maxY = Num 220,
      w = Num 1098, h = Num 220\<rparr>"
  unfolding inflatedBBox_def scenario_points scenario_corners
  by (simp add: aabbFromPoints_def inflate_def scenario_layout_def)

lemma scenario_fit:
  "autoFit scenario_layout (Num 1000) (Num 1000) =
     \<lparr>scale = Num (964 / 1098),
      offsetX = Num ((1000 - 1098 * (964 / 1098)) / 2 - (- 99) * (964 / 1098)),
      offsetY = Num ((1000 - 220 * (964 / 1098)) / 2 - 0 * (964 / 1098))\<rparr>"
  unfolding autoFit_def scenario_bbox by (simp add: fitTo_def padPx_def)

text \<open>
  Claim C3. When the inflated bounding box \<open>bb\<close> of a layout has positive width and
  height, the fit for the viewport \<open>(W, H)\<close> is the scale
  \<open>s = min((W - 2 padPx) / bb.w, (H - 2 padPx) / bb.h)\<close> with the offsets
  \<open>(W - bb.w s) / 2 - bb.minX s\<close> and \<open>(H - bb.h s) / 2 - bb.minY s\<close>, where
  \<open>padPx = 18\<close>.
\<close>

theorem autoFit_formulas:
  assumes "aabb.w (inflatedBBox L) = Num bw" "0 < bw"
    and "aabb.h (inflatedBBox L) = Num bh" "0 < bh"
  shows "\<exists>mx my. minX (inflatedBBox L) = Num mx \<and> minY (inflatedBBox L) = Num my \<and>
     autoFit L (Num W) (Num H) =
       (let s = min ((W - 2 * 18) / bw) ((H - 2 * 18) / bh)
        in \<lparr>scale = Num s,
            offsetX = Num ((W - bw * s) / 2 - mx * s),
            offsetY = Num ((H - bh * s) / 2 - my * s)\<rparr>)"
proof -
  obtain mx my where m: "minX (inflatedBBox L) = Num mx" "minY (inflatedBBox L) = Num my"
    using inflatedBBox_finite [OF assms(1) assms(3)] by auto
  have "bw \<noteq> 0" "bh \<noteq> 0" using assms by auto
  from fitTo_finite [OF assms(1) assms(3) m this] m show ?thesis
    by (auto simp: autoFit_def)
qed

theorem autoFit_formulas_witness:
  "\<exists>mx my. minX (inflatedBBox scenario_layout) = Num mx \<and>
     minY (inflatedBBox scenario_layout) = Num my \<and>
     autoFit scenario_layout (Num 1000) (Num 1000) =
       (let s = min ((1000 - 2 * 18) / 1098) ((1000 - 2 * 18) / 220)
        in \<lparr>scale = Num s,
            offsetX = Num ((1000 - 1098 * s) / 2 - mx * s),
            offsetY = Num ((1000 - 220 * s) / 2 - my * s)\<rparr>)"
proof -
  have b: "aabb.w (inflatedBBox scenario_layout) = Num 1098"
    "aabb.h (inflatedBBox scenario_layout) = Num 220"
    by (simp_all add: scenario_bbox)
  have p: "(0::real) < 1098" "(0::real) < 220" by simp_all
  show ?thesis
    using autoFit_formulas [OF b(1) p(1) b(2) p(2), of 1000 1000] by simp
qed







section \<open>The concrete scenario\<close>

text \<open>
  Claim C4, amended. For the single plaque \<open>{x:0, y:0, w:900, h:220}\<close> with angle 0,
  skew factor 0.45, shadow offset \<open>{0, 0}\<close>, zero motif pads and the viewport
  \<open>1000 \<times> 1000\<close>, \<open>plaqueCorners\<close> followed by \<open>aabbFromPoints\<close> yields the box
  \<open>{minX: -99, minY: 0, maxX: 999, maxY: 220}\<close> of width 1098: the skew \<open>220 * 0.45 = 99\<close>
  moves the top edge right and the bottom edge left. The scale is
  \<open>min(964 / 1098, 964 / 220) = 964 / 1098\<close>, which is 0.8780 to four decimal places, and
  the offsets are those of the centring formulas.
\<close>

theorem scenario_bbox_and_fit:
  "aabbFromPoints (plaqueCorners scenario_plaque (Num 0) (Num 0.45)) =
     \<lparr>minX = Num (- 99), minY = Num 0, maxX = Num 999, maxY = Num 220,
      w = Num 1098, h = Num 220\<rparr> \<and>
   inflatedBBox scenario_layout =
     aabbFromPoints (plaqueCorners scenario_plaque (Num 0) (Num 0.45)) \<and>
   autoFit scenario_layout (Num 1000) (Num 1000) =
     \<lparr>scale = Num (964 / 1098),
      offsetX = Num ((1000 - 1098 * (964 / 1098)) / 2 - (- 99) * (964 / 1098)),
      offsetY = Num ((1000 - 220 * (964 / 1098)) / 2 - 0 * (964 / 1098))\<rparr> \<and>
   (964 / 1098 :: real) = min ((1000 - 2 * 18) / 1098) ((1000 - 2 * 18) / 220) \<and>
   (0.87795 :: real) \<le> 964 / 1098 \<and> (964 / 1098 :: real) < 0.87805"
  unfolding scenario_fit scenario_bbox scenario_aabb by simp

text \<open>
  The values the specification expects for the scenario, the box
  \<open>{minX: 0, minY: 0, maxX: 900, maxY: 220}\<close> and the scale
  \<open>min(964 / 900, 964 / 220)\<close>, are not the ones computed.
\<close>

theorem scenario_expected_values_counterexample:
  "\<not> (minX (aabbFromPoints (plaqueCorners scenario_plaque (Num 0) (Num 0.45))) = Num 0 \<and>
      minY (aabbFromPoints (plaqueCorners scenario_plaque (Num 0) (Num 0.45))) = Num 0 \<and>
      maxX (aabbFromPoints (plaqueCorners scenario_plaque (Num 0) (Num 0.45))) = Num 900 \<and>
      maxY (aabbFromPoints (plaqueCorners scenario_plaque (Num 0) (Num 0.45))) = Num 220 \<and>
      scale (autoFit scenario_layout (Num 1000) (Num 1000)) =
        Num (min ((1000 - 36) / 900) ((1000 - 36) / 220)))"
  unfolding scenario_aabb by simp

section \<open>Viewports smaller than the margins\<close>

lemma seeds_finite:
  assumes "vs \<noteq> []" "\<forall>v \<in> set vs. \<exists>r. v = Num r"
  shows "\<exists>m M. foldl js_min PosInf vs = Num m \<and> foldl js_max NegInf vs = Num M \<and> m \<le> M"
proof -
  have nn: "\<forall>v \<in> set vs. \<not> is_nan v" using assms(2) by auto
  note a = foldl_js_min_seed [OF assms(1) nn] and b = foldl_js_max_seed [OF assms(1) nn]
  obtain m where m: "foldl js_min PosInf vs = Num m" using a assms(2) by blast
  obtain M where M: "foldl js_max NegInf vs = Num M" using b assms(2) by blast
  have "js_le (foldl js_min PosInf vs) (foldl js_max NegInf vs)"
    using a b js_le_trans by blast
  then have "m \<le> M" by (simp add: m M)
  then show ?thesis using m M by simp
qed

lemma aabb_of_finite_points:
  assumes "ps \<noteq> []"
    and "\<forall>p \<in> set ps. (\<exists>r. point.x p = Num r) \<and> (\<exists>r. point.y p = Num r)"
  shows "\<exists>m M n N. minX (aabbFromPoints ps) = Num m \<and>
                   maxX (aabbFromPoints ps) = Num M \<and> m \<le> M \<and>
                   minY (aabbFromPoints ps) = Num n \<and>
                   maxY (aabbFromPoints ps) = Num N \<and> n \<le> N"
proof -
  have nx: "map point.x ps \<noteq> []" "\<forall>v \<in> set (map point.x ps). \<exists>r. v = Num r"
    and ny: "map point.y ps \<noteq> []" "\<forall>v \<in> set (map point.y ps). \<exists>r. v = Num r"
    using assms by auto
  from seeds_finite [OF nx] seeds_finite [OF ny] show ?thesis
    unfolding aabbFromPoints_fields(1-4) by blast
qed

lemma draw_pts_finite:
  "draw_pts \<noteq> []"
  "\<forall>p \<in> set draw_pts. (\<exists>r. point.x p = Num r) \<and> (\<exists>r. point.y p = Num r)"
proof -
  show "draw_pts \<noteq> []"
    unfolding draw_pts_fin by (simp add: plaqueCorners_nonempty)
  show "\<forall>p \<in> set draw_pts. (\<exists>r. point.x p = Num r) \<and> (\<exists>r. point.y p = Num r)"
    unfolding draw_pts_fin set_append using plaqueCorners_finite by blast
qed

text \<open>The inflated box of the design of \<open>draw\<close> is finite, at least 340 wide and 310 high.\<close>

lemma draw_bb_positive:
  "\<exists>bw bh mx my. aabb.w draw_bb = Num bw \<and> 340 \<le> bw \<and> aabb.h draw_bb = Num bh \<and> 310 \<le> bh \<and>
      minX draw_bb = Num mx \<and> minY draw_bb = Num my"
proof -
  obtain m M n N where
    "minX (aabbFromPoints draw_pts) = Num m" "maxX (aabbFromPoints draw_pts) = Num M" "m \<le> M"
    "minY (aabbFromPoints draw_pts) = Num n" "maxY (aabbFromPoints draw_pts) = Num N" "n \<le> N"
    using aabb_of_finite_points [OF draw_pts_finite] by blast
  then show ?thesis
    by (simp add: draw_bb_def inflate_fields draw_motifPad_def)
qed

text \<open>
  Claim C5 asks for a finite, strictly positive scale at every viewport of positive width
  and height. In the viewport \<open>10 \<times> 10\<close> the scale that \<open>draw\<close> computes is negative, and
  the left edge of the inflated box is sent to the right of the viewport.
\<close>

theorem draw_fit_small_viewport:
  "\<exists>s vx. scale (draw_fit (Num 10) (Num 10)) = Num s \<and> s < 0 \<and>
     point.x (applyFit (draw_fit (Num 10) (Num 10))
               \<lparr>point.x = minX draw_bb, y = minY draw_bb\<rparr>) = Num vx \<and> 10 < vx"
proof -
  obtain bw bh mx my where b: "aabb.w draw_bb = Num bw" "aabb.h draw_bb = Num bh"
      "minX draw_bb = Num mx" "minY draw_bb = Num my" and p: "340 \<le> bw" "310 \<le> bh"
    using draw_bb_positive by blast
  define s where "s = min ((10 - 2 * 18) / bw) ((10 - 2 * 18) / bh)"
  have nz: "bw \<noteq> 0" "bh \<noteq> 0" and pos: "0 < bw" using p by auto
  have q: "(10 - 2 * 18) / bw < 0" using pos by (simp add: divide_neg_pos)
  have neg: "s < 0"
    unfolding s_def min_less_iff_disj using q by (rule disjI1)
  have "s \<le> (10 - 2 * 18) / bw" unfolding s_def by simp
  then have "bw * s \<le> bw * ((10 - 2 * 18) / bw)"
    using pos by (intro mult_left_mono) auto
  then have le: "bw * s \<le> - 26" using nz by simp
  have ft: "draw_fit (Num 10) (Num 10) =
      \<lparr>scale = Num s, offsetX = Num ((10 - bw * s) / 2 - mx * s),
       offsetY = Num ((10 - bh * s) / 2 - my * s)\<rparr>"
    unfolding draw_fit_def fitTo_finite [OF b nz] Let_def s_def by simp
  have sc: "scale (draw_fit (Num 10) (Num 10)) = Num s" by (simp add: ft)
  have px: "point.x (applyFit (draw_fit (Num 10) (Num 10))
               \<lparr>point.x = minX draw_bb, y = minY draw_bb\<rparr>) = Num ((10 - bw * s) / 2)"
    unfolding ft applyFit_def b by simp
  have gt: "10 < (10 - bw * s) / 2" using le by simp
  from sc neg px gt show ?thesis by blast
qed

end
